theory Spec2Isabelle
  imports
    Main
    "HOL-Library.AList"
    "HOL-Library.Char_ord"
    "HOL-Library.List_Lexorder"
    "HOL-Library.Sublist"
begin

section \<open>The FHIR resource manager over a key-value backend\<close>

text \<open>
  The development embeds \<^verbatim>\<open>src/fhir-resource-manager/resourceManager.ts\<close>.
  The manager keeps no state of its own: every operation is a function of the backend
  (the DynamoDB table it talks to) and returns the backend it leaves behind, together
  with either the value the TypeScript method resolves to or the error it throws.
  The clock (\<^verbatim>\<open>getCurrentTimestamp\<close>) and the identifier source
  (\<^verbatim>\<open>generateResourceId\<close>) are read once per call; the value read is an
  argument of the operation (\<open>now\<close>, \<open>uuid\<close>).
\<close>

subsection \<open>Resources\<close>

text \<open>
  \<^verbatim>\<open>meta.versionId\<close> is a decimal string in the source, produced only by
  \<^verbatim>\<open>'1'\<close> and \<^verbatim>\<open>String(parseInt(v) + 1)\<close>; it is modelled by the number it
  denotes (the double-precision successor is exact below \<open>2^53\<close>).
  Timestamps are the strings \<^verbatim>\<open>formatISO\<close> returns.
\<close>

record meta =
  versionId :: "nat option"
  lastUpdated :: "string option"
  profile :: "string list option"

text \<open>
  A payload is free-form JSON. The record names the members the manager reads or
  writes: \<^verbatim>\<open>resourceType\<close>, \<^verbatim>\<open>id\<close>, \<^verbatim>\<open>meta\<close>, \<^verbatim>\<open>subject.reference\<close>
  (\<open>None\<close> when \<^verbatim>\<open>subject\<close> or \<^verbatim>\<open>reference\<close> is missing) and the deletion
  marker \<^verbatim>\<open>_deleted\<close>; every other member is carried along in \<open>members\<close>.
\<close>

record FHIRResource =
  resourceType :: "string option"
  id_attr :: "string option"
  meta :: "meta option"
  subject_reference :: "string option"
  deleted_marker :: "bool option"
  members :: "(string \<times> string) list"

record FHIRBundle =
  bundleResourceType :: string
  bundleId :: string
  bundleType :: string
  total :: nat
  entry :: "(FHIRResource \<times> string) list"

subsection \<open>Errors\<close>

text \<open>
  One constructor for each \<^verbatim>\<open>throw new Error(...)\<close> of the manager. Only the
  not-found error carries \<^verbatim>\<open>statusCode = 404\<close>; the request handler answers every
  error without a status code with 500.
\<close>

datatype error =
    UnsupportedResourceType string
  | InvalidResource
  | ResourceTypeMismatch string string
  | InvalidResourceId
  | NotFound string string
  | AlreadyExists string string
  | FailedToCreate string
  | FailedToRetrieve string
  | FailedToUpdate string
  | FailedToDelete string
  | FailedToSearch string

fun statusCode :: "error \<Rightarrow> nat option" where
  "statusCode (NotFound t i) = Some 404"
| "statusCode e = None"

subsection \<open>The backend\<close>

text \<open>
  A table row is stored under its composite primary key \<open>(PK, SK)\<close>. The sort key
  \<^verbatim>\<open>'v' + versionId\<close> is modelled by the version number, so \<^verbatim>\<open>'v1'\<close> is \<open>1\<close>.
  The remaining attributes of a row are the fields of \<open>item\<close>; an attribute a row may
  lack is an option. The table is a list of rows without duplicate keys.
\<close>

type_synonym key = "string \<times> nat"

record item =
  itemResourceType :: "string option"
  resourceId :: "string option"
  itemLastUpdated :: string
  itemVersionId :: nat
  resource :: FHIRResource
  GSI1PK :: "string option"
  GSI1SK :: "string option"
  GSI2PK :: "string option"
  GSI2SK :: "string option"
  deleted :: "bool option"

datatype backend_error = BackendError (err_name: string) (err_message: string)

text \<open>
  A backend call can fail (transport, throttling, outage, a rejected request). The error
  the client library throws has a \<^verbatim>\<open>name\<close> and a \<^verbatim>\<open>message\<close>, the two members
  the manager reads, and no \<^verbatim>\<open>statusCode\<close> member. \<open>faults\<close> scripts the failures:
  each call consumes the head of the list and throws it if it is an error; a backend
  whose list is empty answers every call.
\<close>

record backend =
  table :: "(key \<times> item) list"
  faults :: "backend_error option list"

definition next_fault :: "backend \<Rightarrow> backend_error option \<times> backend" where
  "next_fault be =
     (case faults be of
        [] \<Rightarrow> (None, be)
      | f # fs \<Rightarrow> (f, be\<lparr>faults := fs\<rparr>))"

definition GetCommand :: "backend \<Rightarrow> key \<Rightarrow> (backend_error + item option) \<times> backend" where
  "GetCommand be k =
     (case next_fault be of
        (Some e, be') \<Rightarrow> (Inl e, be')
      | (None, be') \<Rightarrow> (Inr (map_of (table be') k), be'))"

text \<open>
  \<^verbatim>\<open>PutCommand\<close> replaces the whole row under the key. With the condition
  \<^verbatim>\<open>attribute_not_exists(PK)\<close> (\<open>if_absent\<close>) it is rejected when a row with this
  key exists.
\<close>

definition PutCommand ::
  "backend \<Rightarrow> key \<Rightarrow> item \<Rightarrow> bool \<Rightarrow> (backend_error + unit) \<times> backend" where
  "PutCommand be k it if_absent =
     (case next_fault be of
        (Some e, be') \<Rightarrow> (Inl e, be')
      | (None, be') \<Rightarrow>
          if if_absent \<and> map_of (table be') k \<noteq> None
          then (Inl (BackendError ''ConditionalCheckFailedException''
                       ''The conditional request failed''), be')
          else (Inr (), be'\<lparr>table := AList.update k it (table be')\<rparr>))"

text \<open>
  \<^verbatim>\<open>UpdateCommand\<close> with
  \<^verbatim>\<open>SET #resource = :resource, #lastUpdated = :lastUpdated, #versionId = :versionId\<close>
  overwrites these three attributes of the row and keeps the others; on a key without
  a row it creates a row that has only the three.
\<close>

definition UpdateCommand ::
  "backend \<Rightarrow> key \<Rightarrow> FHIRResource \<Rightarrow> string \<Rightarrow> nat \<Rightarrow> (backend_error + unit) \<times> backend" where
  "UpdateCommand be k r lu v =
     (case next_fault be of
        (Some e, be') \<Rightarrow> (Inl e, be')
      | (None, be') \<Rightarrow>
          (let it' = (case map_of (table be') k of
                        Some it \<Rightarrow> it\<lparr>resource := r, itemLastUpdated := lu, itemVersionId := v\<rparr>
                      | None \<Rightarrow>
                          \<lparr>itemResourceType = None, resourceId = None, itemLastUpdated = lu,
                           itemVersionId = v, resource = r, GSI1PK = None, GSI1SK = None,
                           GSI2PK = None, GSI2SK = None, deleted = None\<rparr>)
           in (Inr (), be'\<lparr>table := AList.update k it' (table be')\<rparr>)))"

subsubsection \<open>Index queries\<close>

datatype attr_value = S string | B bool

datatype condition =
    Eq string string
  | BeginsWith string string
  | AttributeNotExists string
  | And condition condition
  | Or condition condition

datatype index_name = GSI1 | GSI2

record query_request =
  IndexName :: index_name
  KeyConditionExpression :: condition
  ExpressionAttributeValues :: "(string \<times> attr_value) list"
  FilterExpression :: condition
  Limit :: int
  ScanIndexForward :: bool

text \<open>The attributes of a row that the expressions of the manager name.\<close>

definition attr :: "item \<Rightarrow> string \<Rightarrow> attr_value option" where
  "attr it a =
     (if a = ''GSI1PK'' then map_option S (GSI1PK it)
      else if a = ''GSI1SK'' then map_option S (GSI1SK it)
      else if a = ''GSI2PK'' then map_option S (GSI2PK it)
      else if a = ''GSI2SK'' then map_option S (GSI2SK it)
      else if a = ''deleted'' then map_option B (deleted it)
      else None)"

fun eval_condition :: "(string \<rightharpoonup> attr_value) \<Rightarrow> item \<Rightarrow> condition \<Rightarrow> bool" where
  "eval_condition vals it (Eq a p) = (attr it a \<noteq> None \<and> attr it a = vals p)"
| "eval_condition vals it (BeginsWith a p) =
     (case (attr it a, vals p) of
        (Some (S s), Some (S pre)) \<Rightarrow> prefix pre s
      | _ \<Rightarrow> False)"
| "eval_condition vals it (AttributeNotExists a) = (attr it a = None)"
| "eval_condition vals it (And c d) = (eval_condition vals it c \<and> eval_condition vals it d)"
| "eval_condition vals it (Or c d) = (eval_condition vals it c \<or> eval_condition vals it d)"

fun placeholders :: "condition \<Rightarrow> string list" where
  "placeholders (Eq a p) = [p]"
| "placeholders (BeginsWith a p) = [p]"
| "placeholders (AttributeNotExists a) = []"
| "placeholders (And c d) = placeholders c @ placeholders d"
| "placeholders (Or c d) = placeholders c @ placeholders d"

definition index_keys :: "index_name \<Rightarrow> item \<Rightarrow> (string \<times> string) option" where
  "index_keys ix it =
     (case ix of
        GSI1 \<Rightarrow> (case (GSI1PK it, GSI1SK it) of (Some p, Some s) \<Rightarrow> Some (p, s) | _ \<Rightarrow> None)
      | GSI2 \<Rightarrow> (case (GSI2PK it, GSI2SK it) of (Some p, Some s) \<Rightarrow> Some (p, s) | _ \<Rightarrow> None))"

definition sort_key_of :: "index_name \<Rightarrow> item \<Rightarrow> string" where
  "sort_key_of ix it = (case index_keys ix it of Some (p, s) \<Rightarrow> s | None \<Rightarrow> [])"

text \<open>
  \<^verbatim>\<open>QueryCommand\<close> on a secondary index, as DynamoDB answers it:
  \<^item> the request is rejected (\<^verbatim>\<open>ValidationException\<close>) when \<^verbatim>\<open>Limit\<close> is below 1,
    when an expression names a value the request does not supply, and when
    \<^verbatim>\<open>ExpressionAttributeValues\<close> supplies a value no expression uses;
  \<^item> the index holds the rows that have both key attributes of the index;
  \<^item> the rows that satisfy the key condition are read in sort-key order, descending
    when \<^verbatim>\<open>ScanIndexForward\<close> is false, and at most \<^verbatim>\<open>Limit\<close> of them are read;
  \<^item> the filter is applied to the rows read, and \<^verbatim>\<open>Count\<close> is the number of
    rows that pass it.
  Rows with equal sort keys come in the order the sort of the model leaves them in, and
  the one-megabyte bound on a page is left out.
\<close>

definition QueryCommand ::
  "backend \<Rightarrow> query_request \<Rightarrow> (backend_error + item list \<times> nat) \<times> backend" where
  "QueryCommand be q =
     (case next_fault be of
        (Some e, be') \<Rightarrow> (Inl e, be')
      | (None, be') \<Rightarrow>
          (let used = placeholders (KeyConditionExpression q) @ placeholders (FilterExpression q);
               supplied = map fst (ExpressionAttributeValues q)
           in if Limit q < 1 \<or> \<not> set used \<subseteq> set supplied \<or> \<not> set supplied \<subseteq> set used
              then (Inl (BackendError ''ValidationException'' ''Invalid request''), be')
              else
                (let vals = map_of (ExpressionAttributeValues q);
                     indexed = filter (\<lambda>it. index_keys (IndexName q) it \<noteq> None)
                                 (map snd (table be'));
                     matching = filter (\<lambda>it. eval_condition vals it (KeyConditionExpression q))
                                  indexed;
                     ascending = sort_key (sort_key_of (IndexName q)) matching;
                     ordered = (if ScanIndexForward q then ascending else rev ascending);
                     page = take (nat (Limit q)) ordered;
                     items = filter (\<lambda>it. eval_condition vals it (FilterExpression q)) page
                 in (Inr (items, length items), be'))))"

subsection \<open>Helpers of the manager\<close>

definition truthy :: "string option \<Rightarrow> bool" where
  "truthy v = (case v of None \<Rightarrow> False | Some s \<Rightarrow> s \<noteq> [])"

text \<open>
  \<^verbatim>\<open>parseInt\<close> with no radix: leading white space, an optional sign, an optional
  \<^verbatim>\<open>0x\<close> prefix, then the longest run of digits; \<open>None\<close> is \<^verbatim>\<open>NaN\<close>.
\<close>

definition is_space :: "char \<Rightarrow> bool" where
  "is_space c = (c \<in> set [CHR '' '', CHR 0x09, CHR 0x0A, CHR 0x0B, CHR 0x0C, CHR 0x0D])"

definition digit_val :: "nat \<Rightarrow> char \<Rightarrow> nat option" where
  "digit_val radix c =
     (let n = (of_char c :: nat)
      in if 48 \<le> n \<and> n \<le> 57 then Some (n - 48)
         else if radix = 16 \<and> 97 \<le> n \<and> n \<le> 102 then Some (n - 87)
         else if radix = 16 \<and> 65 \<le> n \<and> n \<le> 70 then Some (n - 55)
         else None)"

definition digits_value :: "nat \<Rightarrow> string \<Rightarrow> nat" where
  "digits_value radix ds =
     foldl (\<lambda>a c. a * radix + (case digit_val radix c of Some d \<Rightarrow> d | None \<Rightarrow> 0)) 0 ds"

definition parseInt :: "string option \<Rightarrow> int option" where
  "parseInt v =
     (case v of
        None \<Rightarrow> None
      | Some s \<Rightarrow>
          (let s1 = dropWhile is_space s;
               negative = (case s1 of c # r \<Rightarrow> c = CHR ''-'' | [] \<Rightarrow> False);
               s2 = (case s1 of c # r \<Rightarrow> if c = CHR ''-'' \<or> c = CHR ''+'' then r else s1
                              | [] \<Rightarrow> s1);
               hex = (prefix ''0x'' s2 \<or> prefix ''0X'' s2);
               radix = (if hex then 16 else 10);
               s3 = (if hex then drop 2 s2 else s2);
               ds = takeWhile (\<lambda>c. digit_val radix c \<noteq> None) s3
           in if ds = [] then None
              else Some ((if negative then - 1 else 1) * int (digits_value radix ds))))"

fun split_on :: "char \<Rightarrow> string \<Rightarrow> string list" where
  "split_on c [] = [[]]"
| "split_on c (x # xs) =
     (if x = c then [] # split_on c xs
      else (case split_on c xs of
              y # ys \<Rightarrow> (x # y) # ys
            | [] \<Rightarrow> [[x]]))"

text \<open>\<^verbatim>\<open>s.replace(pat, rep)\<close> with a string pattern replaces the first occurrence.\<close>

fun replace_first :: "string \<Rightarrow> string \<Rightarrow> string \<Rightarrow> string" where
  "replace_first pat rep [] = (if pat = [] then rep else [])"
| "replace_first pat rep (c # cs) =
     (if prefix pat (c # cs) then rep @ drop (length pat) (c # cs)
      else c # replace_first pat rep cs)"

definition buildPrimaryKey :: "string \<Rightarrow> string \<Rightarrow> key" where
  "buildPrimaryKey rt i = (''RESOURCE#'' @ rt @ ''#'' @ i, 1)"

definition validateResourceType :: "string \<Rightarrow> bool" where
  "validateResourceType rt =
     (rt \<in> set [''Patient'', ''Encounter'', ''Practitioner'', ''DocumentReference'',
               ''Observation'', ''Condition''])"

definition addMetadata :: "FHIRResource \<Rightarrow> bool \<Rightarrow> nat option \<Rightarrow> string \<Rightarrow> FHIRResource" where
  "addMetadata r isUpdate existingVersionId currentTime =
     (let v = (case existingVersionId of
                 Some n \<Rightarrow> if isUpdate then n + 1 else 1
               | None \<Rightarrow> 1);
          m = (case meta r of
                 Some m0 \<Rightarrow> m0
               | None \<Rightarrow> \<lparr>versionId = None, lastUpdated = None, profile = None\<rparr>);
          rt = (case resourceType r of Some t \<Rightarrow> t | None \<Rightarrow> ''undefined'')
      in r\<lparr>meta := Some (m\<lparr>versionId := Some v,
                            lastUpdated := Some currentTime,
                            profile := (case profile m of
                                          Some p \<Rightarrow> Some p
                                        | None \<Rightarrow> Some [''http://hl7.org/fhir/StructureDefinition/'' @ rt])\<rparr>)\<rparr>)"

text \<open>
  The owner bucket:
  \<^verbatim>\<open>resourceType === 'Patient' ? id : resource.subject?.reference?.split('/')[1] || 'unknown'\<close>.
\<close>

definition patientOf :: "string \<Rightarrow> string \<Rightarrow> FHIRResource \<Rightarrow> string" where
  "patientOf rt i r =
     (if rt = ''Patient'' then i
      else (case subject_reference r of
              None \<Rightarrow> ''unknown''
            | Some ref \<Rightarrow>
                (case split_on CHR ''/'' ref of
                   a # b # rest \<Rightarrow> if b = [] then ''unknown'' else b
                 | _ \<Rightarrow> ''unknown'')))"

definition type_mismatch :: "FHIRResource \<Rightarrow> string \<Rightarrow> bool" where
  "type_mismatch r rt = (truthy (resourceType r) \<and> resourceType r \<noteq> Some rt)"

subsection \<open>The operations\<close>

text \<open>
  \<^verbatim>\<open>createResource\<close> and \<^verbatim>\<open>updateResource\<close> build the same row
  (\<^verbatim>\<open>dynamoItem\<close>) except for the prefix of \<^verbatim>\<open>GSI1SK\<close>, which is
  \<^verbatim>\<open>CREATED#\<close> in the first and \<^verbatim>\<open>UPDATED#\<close> in the second. \<open>r\<close> is the
  payload as received and \<open>rwm\<close> is \<^verbatim>\<open>resourceWithMetadata\<close>.
\<close>

definition dynamoItem :: "string \<Rightarrow> string \<Rightarrow> string \<Rightarrow> FHIRResource \<Rightarrow> FHIRResource \<Rightarrow> item" where
  "dynamoItem pre rt rid r rwm =
     \<lparr>itemResourceType = Some rt,
      resourceId = Some rid,
      itemLastUpdated = the (lastUpdated (the (meta rwm))),
      itemVersionId = the (versionId (the (meta rwm))),
      resource = rwm,
      GSI1PK = Some (''RESOURCE_TYPE#'' @ rt),
      GSI1SK = Some (pre @ the (lastUpdated (the (meta rwm)))),
      GSI2PK = Some (''PATIENT#'' @ patientOf rt rid r),
      GSI2SK = Some (''RESOURCE#'' @ rt @ ''#'' @ rid),
      deleted = None\<rparr>"

definition createResource ::
  "backend \<Rightarrow> string \<Rightarrow> FHIRResource option \<Rightarrow> string \<Rightarrow> string \<Rightarrow> (error + FHIRResource) \<times> backend" where
  "createResource be rt payload now uuid =
     (if \<not> validateResourceType rt then (Inl (UnsupportedResourceType rt), be)
      else case payload of
        None \<Rightarrow> (Inl InvalidResource, be)
      | Some r \<Rightarrow>
          if type_mismatch r rt
          then (Inl (ResourceTypeMismatch rt (case resourceType r of Some t \<Rightarrow> t | None \<Rightarrow> [])), be)
          else
            (let rid = (case id_attr r of Some i \<Rightarrow> if i = [] then uuid else i | None \<Rightarrow> uuid);
                 resourceWithMetadata =
                   addMetadata (r\<lparr>resourceType := Some rt, id_attr := Some rid\<rparr>) False None now
             in case PutCommand be (buildPrimaryKey rt rid)
                       (dynamoItem ''CREATED#'' rt rid r resourceWithMetadata) True of
                  (Inr u, be') \<Rightarrow> (Inr resourceWithMetadata, be')
                | (Inl e, be') \<Rightarrow>
                    if err_name e = ''ConditionalCheckFailedException''
                    then (Inl (AlreadyExists rt rid), be')
                    else (Inl (FailedToCreate (err_message e)), be')))"

definition getResource ::
  "backend \<Rightarrow> string \<Rightarrow> string \<Rightarrow> (error + FHIRResource) \<times> backend" where
  "getResource be rt i =
     (if \<not> validateResourceType rt then (Inl (UnsupportedResourceType rt), be)
      else if i = [] then (Inl InvalidResourceId, be)
      else case GetCommand be (buildPrimaryKey rt i) of
             (Inl e, be') \<Rightarrow> (Inl (FailedToRetrieve (err_message e)), be')
           | (Inr None, be') \<Rightarrow> (Inl (NotFound rt i), be')
           | (Inr (Some it), be') \<Rightarrow> (Inr (resource it), be'))"

text \<open>
  \<^verbatim>\<open>updateResource\<close> writes the new row under the sort key of the new version and
  then sets three attributes of the row under \<^verbatim>\<open>'v1'\<close>.
\<close>

definition updateResource ::
  "backend \<Rightarrow> string \<Rightarrow> string \<Rightarrow> FHIRResource option \<Rightarrow> string \<Rightarrow> (error + FHIRResource) \<times> backend" where
  "updateResource be rt i payload now =
     (if \<not> validateResourceType rt then (Inl (UnsupportedResourceType rt), be)
      else if i = [] then (Inl InvalidResourceId, be)
      else case payload of
        None \<Rightarrow> (Inl InvalidResource, be)
      | Some r \<Rightarrow>
          if type_mismatch r rt
          then (Inl (ResourceTypeMismatch rt (case resourceType r of Some t \<Rightarrow> t | None \<Rightarrow> [])), be)
          else (case GetCommand be (buildPrimaryKey rt i) of
                 (Inl e, be1) \<Rightarrow> (Inl (FailedToUpdate (err_message e)), be1)
               | (Inr None, be1) \<Rightarrow> (Inl (NotFound rt i), be1)
               | (Inr (Some existingResource), be1) \<Rightarrow>
                   (let resourceWithMetadata =
                          addMetadata (r\<lparr>resourceType := Some rt, id_attr := Some i\<rparr>) True
                            (Some (itemVersionId existingResource)) now;
                        updatedSK = the (versionId (the (meta resourceWithMetadata)))
                    in case PutCommand be1 (fst (buildPrimaryKey rt i), updatedSK)
                              (dynamoItem ''UPDATED#'' rt i r resourceWithMetadata) False of
                         (Inl e, be2) \<Rightarrow> (Inl (FailedToUpdate (err_message e)), be2)
                       | (Inr u, be2) \<Rightarrow>
                           (case UpdateCommand be2 (fst (buildPrimaryKey rt i), 1) resourceWithMetadata
                                   (the (lastUpdated (the (meta resourceWithMetadata))))
                                   (the (versionId (the (meta resourceWithMetadata)))) of
                              (Inl e, be3) \<Rightarrow> (Inl (FailedToUpdate (err_message e)), be3)
                            | (Inr u', be3) \<Rightarrow> (Inr resourceWithMetadata, be3)))))"

text \<open>
  \<^verbatim>\<open>deleteResource\<close> writes one row: the row it read, with the tombstoned
  resource, under the key of the row it read.
\<close>

definition deletedResource :: "item \<Rightarrow> string \<Rightarrow> FHIRResource" where
  "deletedResource it now =
     (let m = (case meta (resource it) of
                 Some m0 \<Rightarrow> m0
               | None \<Rightarrow> \<lparr>versionId = None, lastUpdated = None, profile = None\<rparr>)
      in (resource it)\<lparr>meta := Some (m\<lparr>lastUpdated := Some now,
                                         versionId := Some (itemVersionId it + 1)\<rparr>),
                        deleted_marker := Some True\<rparr>)"

definition deletedItem :: "item \<Rightarrow> string \<Rightarrow> item" where
  "deletedItem it now =
     it\<lparr>resource := deletedResource it now,
        itemLastUpdated := the (lastUpdated (the (meta (deletedResource it now)))),
        itemVersionId := the (versionId (the (meta (deletedResource it now)))),
        deleted := Some True\<rparr>"

definition deleteResource ::
  "backend \<Rightarrow> string \<Rightarrow> string \<Rightarrow> string \<Rightarrow> (error + unit) \<times> backend" where
  "deleteResource be rt i now =
     (if \<not> validateResourceType rt then (Inl (UnsupportedResourceType rt), be)
      else if i = [] then (Inl InvalidResourceId, be)
      else case GetCommand be (buildPrimaryKey rt i) of
             (Inl e, be1) \<Rightarrow> (Inl (FailedToDelete (err_message e)), be1)
           | (Inr None, be1) \<Rightarrow> (Inl (NotFound rt i), be1)
           | (Inr (Some it), be1) \<Rightarrow>
               (case PutCommand be1 (buildPrimaryKey rt i) (deletedItem it now) False of
                  (Inl e, be2) \<Rightarrow> (Inl (FailedToDelete (err_message e)), be2)
                | (Inr u, be2) \<Rightarrow> (Inr (), be2)))"

text \<open>
  \<^verbatim>\<open>searchResources\<close> reads \<^verbatim>\<open>_count\<close>, \<^verbatim>\<open>_lastUpdated\<close> and
  \<^verbatim>\<open>subject\<close> from the query parameters (\<^verbatim>\<open>_offset\<close> is parsed and not used);
  no other parameter reaches the request. The request is built as the source builds it:
  the owner path replaces the index name and the key condition and adds its value to the
  values already there.
\<close>

definition searchRequest :: "string \<Rightarrow> (string \<rightharpoonup> string) \<Rightarrow> query_request" where
  "searchRequest rt searchParams =
     (let count = (case parseInt (searchParams ''_count'') of
                     None \<Rightarrow> 20
                   | Some n \<Rightarrow> if n = 0 then 20 else n);
          q0 = \<lparr>IndexName = GSI1,
                KeyConditionExpression = Eq ''GSI1PK'' '':resourceTypeKey'',
                ExpressionAttributeValues =
                  [('':resourceTypeKey'', S (''RESOURCE_TYPE#'' @ rt)), ('':deleted'', B False)],
                FilterExpression = Or (AttributeNotExists ''deleted'') (Eq ''deleted'' '':deleted''),
                Limit = count,
                ScanIndexForward = False\<rparr>;
          q1 = (if truthy (searchParams ''_lastUpdated'')
                then q0\<lparr>KeyConditionExpression :=
                           And (KeyConditionExpression q0) (BeginsWith ''GSI1SK'' '':lastUpdatedPrefix''),
                         ExpressionAttributeValues :=
                           ExpressionAttributeValues q0 @ [('':lastUpdatedPrefix'', S ''CREATED'')]\<rparr>
                else q0);
          q2 = (if truthy (searchParams ''subject'') \<and> rt \<noteq> ''Patient''
                then (let patientId = replace_first ''Patient/'' []
                                        (case searchParams ''subject'' of Some s \<Rightarrow> s | None \<Rightarrow> [])
                      in q1\<lparr>IndexName := GSI2,
                             KeyConditionExpression := Eq ''GSI2PK'' '':patientKey'',
                             ExpressionAttributeValues :=
                               ExpressionAttributeValues q1 @ [('':patientKey'', S (''PATIENT#'' @ patientId))]\<rparr>)
                else q1)
      in q2)"

definition searchResources ::
  "backend \<Rightarrow> string \<Rightarrow> (string \<rightharpoonup> string) \<Rightarrow> string \<Rightarrow> (error + FHIRBundle) \<times> backend" where
  "searchResources be rt searchParams uuid =
     (if \<not> validateResourceType rt then (Inl (UnsupportedResourceType rt), be)
      else case QueryCommand be (searchRequest rt searchParams) of
             (Inl e, be') \<Rightarrow> (Inl (FailedToSearch (err_message e)), be')
           | (Inr (items, cnt), be') \<Rightarrow>
               (Inr \<lparr>bundleResourceType = ''Bundle'',
                     bundleId = uuid,
                     bundleType = ''searchset'',
                     total = cnt,
                     entry = map (\<lambda>it. (resource it,
                                         rt @ ''/'' @ (case id_attr (resource it) of
                                                         Some i \<Rightarrow> i
                                                       | None \<Rightarrow> ''undefined'')))
                               items\<rparr>, be'))"

subsection \<open>Sequences of operations\<close>

datatype operation =
    Create string "FHIRResource option" string string
  | Read string string
  | Update string string "FHIRResource option" string
  | Delete string string string
  | Search string "(string \<times> string) list" string

fun perform :: "operation \<Rightarrow> backend \<Rightarrow> backend" where
  "perform (Create rt payload now uuid) be = snd (createResource be rt payload now uuid)"
| "perform (Read rt i) be = snd (getResource be rt i)"
| "perform (Update rt i payload now) be = snd (updateResource be rt i payload now)"
| "perform (Delete rt i now) be = snd (deleteResource be rt i now)"
| "perform (Search rt params uuid) be = snd (searchResources be rt (map_of params) uuid)"

definition run :: "operation list \<Rightarrow> backend \<Rightarrow> backend" where
  "run ops be = foldl (\<lambda>b op. perform op b) be ops"

definition empty_backend :: backend where
  "empty_backend = \<lparr>table = [], faults = []\<rparr>"

subsection \<open>Consistent tables\<close>

text \<open>
  The tables the manager itself produces on a backend that answers every call: keys are
  unique, sort keys start at 1, every identity with a row has its \<^verbatim>\<open>'v1'\<close> row, and
  no row of the identity lies beyond the version recorded there.
\<close>

definition consistent :: "(key \<times> item) list \<Rightarrow> bool" where
  "consistent t =
     (distinct (map fst t) \<and>
      (\<forall>((pk, k), it) \<in> set t.
          1 \<le> k \<and>
          (case map_of t (pk, 1) of
             None \<Rightarrow> False
           | Some cur \<Rightarrow> 1 \<le> itemVersionId cur \<and> k \<le> itemVersionId cur)))"

text \<open>
  What one operation can do to the table when every backend call it makes is answered:
  nothing, insert the first row of an identity, write the row of a new version and set the
  current row to it, or overwrite the current row with a tombstone. \<open>half_updated\<close>
  is the table an update leaves when its second write fails.
\<close>

inductive write_effect :: "(key \<times> item) list \<Rightarrow> (key \<times> item) list \<Rightarrow> bool" where
  unchanged: "write_effect t t"
| inserted:
    "map_of t (pk, 1) = None \<Longrightarrow> itemVersionId it = 1 \<Longrightarrow>
     write_effect t (AList.update (pk, 1) it t)"
| updated:
    "map_of t (pk, 1) = Some cur \<Longrightarrow>
     t1 = AList.update (pk, Suc (itemVersionId cur)) hist t \<Longrightarrow>
     map_of t1 (pk, 1) = Some c1 \<Longrightarrow>
     write_effect t
       (AList.update (pk, 1)
          (c1\<lparr>resource := r, itemLastUpdated := lu, itemVersionId := Suc (itemVersionId cur)\<rparr>) t1)"
| tombstoned:
    "map_of t (pk, 1) = Some cur \<Longrightarrow> itemVersionId it = Suc (itemVersionId cur) \<Longrightarrow>
     deleted it = Some True \<Longrightarrow>
     write_effect t (AList.update (pk, 1) it t)"


subsection \<open>Example data\<close>

definition patientA :: FHIRResource where
  "patientA = \<lparr>resourceType = None, id_attr = Some ''p1'', meta = None,
                subject_reference = None, deleted_marker = None, members = [(''name'', ''A'')]\<rparr>"

definition patientB :: FHIRResource where
  "patientB = \<lparr>resourceType = Some ''Patient'', id_attr = Some ''other'', meta = None,
                subject_reference = None, deleted_marker = None, members = [(''name'', ''B'')]\<rparr>"

definition created :: backend where
  "created = run [Create ''Patient'' (Some patientA) ''2024-05-01T10:00:00Z'' ''u1''] empty_backend"

definition updated :: backend where
  "updated = run [Update ''Patient'' ''p1'' (Some patientB) ''2024-05-01T10:00:05Z''] created"

definition tombstoned :: backend where
  "tombstoned = run [Delete ''Patient'' ''p1'' ''2024-05-01T10:00:09Z''] updated"


text \<open>
  What the table holds: for each row its key, the version and the deletion marker of the
  resource stored in it, and the other members of that resource.
\<close>

definition stored_rows :: "backend \<Rightarrow> (key \<times> nat option \<times> bool option \<times> (string \<times> string) list) list" where
  "stored_rows be =
     map (\<lambda>(k, it). (k, (case meta (resource it) of Some m \<Rightarrow> versionId m | None \<Rightarrow> None),
                        deleted_marker (resource it), members (resource it)))
       (table be)"


text \<open>
  Patient \<open>a\<close> is created and then updated; patient \<open>b\<close> is created after that and
  never updated, so \<open>b\<close> is the resource modified last.
\<close>

definition patient_a :: FHIRResource where
  "patient_a = \<lparr>resourceType = None, id_attr = Some ''a'', meta = None,
                 subject_reference = None, deleted_marker = None, members = []\<rparr>"

definition patient_b :: FHIRResource where
  "patient_b = \<lparr>resourceType = None, id_attr = Some ''b'', meta = None,
                 subject_reference = None, deleted_marker = None, members = []\<rparr>"

definition mixed :: backend where
  "mixed =
     run [Create ''Patient'' (Some patient_a) ''2024-05-01T10:00:00Z'' ''u1'',
          Update ''Patient'' ''a'' (Some patient_a) ''2024-05-01T10:00:05Z'',
          Create ''Patient'' (Some patient_b) ''2024-05-01T10:00:09Z'' ''u2''] empty_backend"

text \<open>
  What a search lists: id, version and modification time of each entry, in the order of
  the result set (nothing when the search fails).
\<close>

definition search_listing ::
  "backend \<Rightarrow> string \<Rightarrow> (string \<times> string) list \<Rightarrow> (string option \<times> nat option \<times> string option) list" where
  "search_listing be rt ps =
     (case fst (searchResources be rt (map_of ps) ''bundle-id'') of
        Inl e \<Rightarrow> []
      | Inr b \<Rightarrow>
          map (\<lambda>(r, url). (id_attr r,
                            (case meta r of Some m \<Rightarrow> versionId m | None \<Rightarrow> None),
                            (case meta r of Some m \<Rightarrow> lastUpdated m | None \<Rightarrow> None)))
            (entry b))"



text \<open>The same table behind a backend whose next call fails.\<close>

definition outage :: backend where
  "outage = created\<lparr>faults := [Some (BackendError ''ServiceUnavailable'' ''service unavailable'')]\<rparr>"

section \<open>Properties\<close>

subsection \<open>The backend commands\<close>

lemma next_fault_table: "next_fault be = (f, be') \<Longrightarrow> table be' = table be"
  by (auto simp: next_fault_def split: list.splits)

lemma next_fault_healthy: "faults be = [] \<Longrightarrow> next_fault be = (None, be)"
  by (simp add: next_fault_def)

lemma GetCommand_healthy:
  "faults be = [] \<Longrightarrow> GetCommand be k = (Inr (map_of (table be) k), be)"
  by (simp add: GetCommand_def next_fault_healthy)

lemma PutCommand_healthy:
  "faults be = [] \<Longrightarrow>
   PutCommand be k it c =
     (if c \<and> map_of (table be) k \<noteq> None
      then (Inl (BackendError ''ConditionalCheckFailedException'' ''The conditional request failed''), be)
      else (Inr (), be\<lparr>table := AList.update k it (table be)\<rparr>))"
  by (simp add: PutCommand_def next_fault_healthy)

lemma UpdateCommand_healthy:
  "faults be = [] \<Longrightarrow> map_of (table be) k = Some it \<Longrightarrow>
   UpdateCommand be k r lu v =
     (Inr (), be\<lparr>table := AList.update k (it\<lparr>resource := r, itemLastUpdated := lu, itemVersionId := v\<rparr>) (table be)\<rparr>)"
  by (simp add: UpdateCommand_def next_fault_healthy)

lemma GetCommand_result:
  "GetCommand be k = (res, be') \<Longrightarrow>
   table be' = table be \<and> (\<forall>x. res = Inr x \<longrightarrow> map_of (table be) k = x)"
  by (auto simp: GetCommand_def split: prod.splits option.splits dest: next_fault_table)

lemma PutCommand_result:
  "PutCommand be k it c = (res, be') \<Longrightarrow>
   (res \<noteq> Inr () \<and> table be' = table be) \<or>
   (res = Inr () \<and> table be' = AList.update k it (table be) \<and> (c \<longrightarrow> map_of (table be) k = None))"
  by (auto simp: PutCommand_def split: prod.splits option.splits if_splits dest: next_fault_table)

lemma UpdateCommand_result:
  "UpdateCommand be k r lu v = (res, be') \<Longrightarrow> map_of (table be) k = Some it \<Longrightarrow>
   (res \<noteq> Inr () \<and> table be' = table be) \<or>
   (res = Inr () \<and> table be' = AList.update k (it\<lparr>resource := r, itemLastUpdated := lu, itemVersionId := v\<rparr>) (table be))"
  by (auto simp: UpdateCommand_def Let_def split: prod.splits option.splits if_splits dest: next_fault_table)



lemma addMetadata_keeps:
  "resourceType (addMetadata r u ev now) = resourceType r"
  "id_attr (addMetadata r u ev now) = id_attr r"
  "deleted_marker (addMetadata r u ev now) = deleted_marker r"
  "subject_reference (addMetadata r u ev now) = subject_reference r"
  "members (addMetadata r u ev now) = members r"
  by (simp_all add: addMetadata_def Let_def)

subsection \<open>The effect of each operation on the table\<close>

lemma buildPrimaryKey_snd: "snd (buildPrimaryKey rt i) = 1"
  by (simp add: buildPrimaryKey_def)

lemma buildPrimaryKey_eq: "buildPrimaryKey rt i = (fst (buildPrimaryKey rt i), 1)"
  by (simp add: buildPrimaryKey_def)

lemma dynamoItem_sel:
  "resource (dynamoItem pre rt rid r rwm) = rwm"
  "deleted (dynamoItem pre rt rid r rwm) = None"
  "itemVersionId (dynamoItem pre rt rid r rwm) = the (versionId (the (meta rwm)))"
  "itemLastUpdated (dynamoItem pre rt rid r rwm) = the (lastUpdated (the (meta rwm)))"
  "GSI2PK (dynamoItem pre rt rid r rwm) = Some (''PATIENT#'' @ patientOf rt rid r)"
  "GSI1PK (dynamoItem pre rt rid r rwm) = Some (''RESOURCE_TYPE#'' @ rt)"
  "GSI1SK (dynamoItem pre rt rid r rwm) = Some (pre @ the (lastUpdated (the (meta rwm))))"
  by (simp_all add: dynamoItem_def)

lemma addMetadata_version:
  "the (versionId (the (meta (addMetadata r True (Some v) now)))) = Suc v"
  "the (versionId (the (meta (addMetadata r False None now)))) = 1"
  "the (lastUpdated (the (meta (addMetadata r u ev now)))) = now"
  by (simp_all add: addMetadata_def Let_def)

lemma deletedItem_sel:
  "deleted (deletedItem it now) = Some True"
  "itemVersionId (deletedItem it now) = Suc (itemVersionId it)"
  "resource (deletedItem it now) = deletedResource it now"
  "itemLastUpdated (deletedItem it now) = now"
  "GSI1PK (deletedItem it now) = GSI1PK it"
  "GSI1SK (deletedItem it now) = GSI1SK it"
  "GSI2PK (deletedItem it now) = GSI2PK it"
  "GSI2SK (deletedItem it now) = GSI2SK it"
  by (simp_all add: deletedItem_def deletedResource_def Let_def)

lemma deletedResource_sel:
  "deleted_marker (deletedResource it now) = Some True"
  "id_attr (deletedResource it now) = id_attr (resource it)"
  "meta (deletedResource it now) \<noteq> None"
  "versionId (the (meta (deletedResource it now))) = Some (itemVersionId it + 1)"
  "lastUpdated (the (meta (deletedResource it now))) = Some now"
  by (simp_all add: deletedResource_def Let_def)

lemma createResource_effect:
  assumes "createResource be rt p now uuid = (res, be')"
  shows "(table be' = table be \<and> (\<forall>r'. res \<noteq> Inr r')) \<or>
         (\<exists>r rid. p = Some r \<and> validateResourceType rt \<and> \<not> type_mismatch r rt \<and>
            rid = (case id_attr r of Some i \<Rightarrow> if i = [] then uuid else i | None \<Rightarrow> uuid) \<and>
            res = Inr (addMetadata (r\<lparr>resourceType := Some rt, id_attr := Some rid\<rparr>) False None now) \<and>
            map_of (table be) (buildPrimaryKey rt rid) = None \<and>
            table be' = AList.update (buildPrimaryKey rt rid)
                          (dynamoItem ''CREATED#'' rt rid r
                             (addMetadata (r\<lparr>resourceType := Some rt, id_attr := Some rid\<rparr>) False None now))
                          (table be))"
  using assms
  by (auto simp: createResource_def Let_def
           split: if_splits option.splits prod.splits sum.splits
           dest!: PutCommand_result)





lemma updateResource_effect:
  assumes "updateResource be rt i p now = (res, be')"
  shows "(table be' = table be \<and> (\<forall>r'. res \<noteq> Inr r')) \<or>
         (\<exists>r cur. p = Some r \<and> validateResourceType rt \<and> i \<noteq> [] \<and> \<not> type_mismatch r rt \<and>
            map_of (table be) (buildPrimaryKey rt i) = Some cur \<and>
            (let rwm = addMetadata (r\<lparr>resourceType := Some rt, id_attr := Some i\<rparr>) True
                         (Some (itemVersionId cur)) now;
                 t1 = AList.update (fst (buildPrimaryKey rt i), Suc (itemVersionId cur))
                        (dynamoItem ''UPDATED#'' rt i r rwm) (table be)
             in ((\<forall>r'. res \<noteq> Inr r') \<and> table be' = t1) \<or>
                (res = Inr rwm \<and>
                 table be' = AList.update (fst (buildPrimaryKey rt i), 1)
                               ((the (map_of t1 (fst (buildPrimaryKey rt i), 1)))
                                  \<lparr>resource := rwm, itemLastUpdated := now,
                                   itemVersionId := Suc (itemVersionId cur)\<rparr>) t1)))"
proof -
  let ?k = "buildPrimaryKey rt i"
  show ?thesis
  proof (cases "validateResourceType rt \<and> i \<noteq> [] \<and> (\<exists>r. p = Some r \<and> \<not> type_mismatch r rt)")
    case False
    with assms show ?thesis
      by (auto simp: updateResource_def split: if_splits option.splits)
  next
    case True
    then obtain r where r: "p = Some r" "\<not> type_mismatch r rt" and v: "validateResourceType rt" "i \<noteq> []"
      by blast
    obtain g be1 where g: "GetCommand be ?k = (g, be1)" by (cases "GetCommand be ?k")
    note gr = GetCommand_result [OF g]
    show ?thesis
    proof (cases g)
      case (Inl e)
      with assms r v g gr show ?thesis by (auto simp add: updateResource_def)
    next
      case (Inr x)
      show ?thesis
      proof (cases x)
        case None
        with assms r v g gr Inr show ?thesis by (auto simp add: updateResource_def)
      next
        case (Some cur)
        let ?rwm = "addMetadata (r\<lparr>resourceType := Some rt, id_attr := Some i\<rparr>) True
                         (Some (itemVersionId cur)) now"
        let ?hk = "(fst ?k, Suc (itemVersionId cur))"
        let ?hist = "dynamoItem ''UPDATED#'' rt i r ?rwm"
        let ?t1 = "AList.update ?hk ?hist (table be)"
        from gr Inr Some have cur: "map_of (table be) ?k = Some cur" by simp
        obtain pr be2 where p: "PutCommand be1 ?hk ?hist False = (pr, be2)"
          by (cases "PutCommand be1 ?hk ?hist False")
        from PutCommand_result [OF p] gr
        consider (pfail) "pr \<noteq> Inr ()" "table be2 = table be"
          | (pok) "pr = Inr ()" "table be2 = ?t1" by auto
        then show ?thesis
        proof cases
          case pfail
          then obtain e where "pr = Inl e" by (cases pr) auto
          with assms r v g Inr Some p pfail show ?thesis
            by (auto simp add: updateResource_def Let_def addMetadata_version)
        next
          case pok
          have "map_of ?t1 (fst ?k, 1) \<noteq> None"
            using cur by (simp add: AList.update_conv' buildPrimaryKey_def)
          then obtain c1 where c1: "map_of (table be2) (fst ?k, 1) = Some c1"
            using pok by auto
          obtain ur be3 where u: "UpdateCommand be2 (fst ?k, 1) ?rwm now (Suc (itemVersionId cur)) = (ur, be3)"
            by (cases "UpdateCommand be2 (fst ?k, 1) ?rwm now (Suc (itemVersionId cur))")
          from UpdateCommand_result [OF u c1]
          consider (ufail) "ur \<noteq> Inr ()" "table be3 = table be2"
            | (uok) "ur = Inr ()"
               "table be3 = AList.update (fst ?k, 1)
                  (c1\<lparr>resource := ?rwm, itemLastUpdated := now, itemVersionId := Suc (itemVersionId cur)\<rparr>)
                  (table be2)" by auto
          then show ?thesis
          proof cases
            case ufail
            then obtain e where "ur = Inl e" by (cases ur) auto
            with assms r v g Inr Some p pok u ufail cur show ?thesis
              by (auto simp add: updateResource_def Let_def addMetadata_version)
          next
            case uok
            with assms r v g Inr Some p pok u cur c1 show ?thesis
              by (auto simp add: updateResource_def Let_def addMetadata_version)
          qed
        qed
      qed
    qed
  qed
qed

subsection \<open>The operations on a backend that answers every call\<close>

lemma UpdateCommand_present:
  "faults be = [] \<Longrightarrow> map_of (table be) k \<noteq> None \<Longrightarrow>
   UpdateCommand be k r lu v =
     (Inr (), be\<lparr>table := AList.update k
                 ((the (map_of (table be) k))\<lparr>resource := r, itemLastUpdated := lu, itemVersionId := v\<rparr>)
                 (table be)\<rparr>)"
  by (auto simp: UpdateCommand_def next_fault_healthy)

lemma updateResource_healthy:
  assumes "validateResourceType rt" and "i \<noteq> []" and "\<not> type_mismatch r rt"
    and "faults be = []" and "map_of (table be) (buildPrimaryKey rt i) = Some cur"
  shows "\<exists>be'. updateResource be rt i (Some r) now =
           (Inr (addMetadata (r\<lparr>resourceType := Some rt, id_attr := Some i\<rparr>) True
                   (Some (itemVersionId cur)) now), be') \<and> faults be' = []"
proof -
  have "map_of (AList.update (fst (buildPrimaryKey rt i), Suc (itemVersionId cur)) h (table be))
          (fst (buildPrimaryKey rt i), 1) \<noteq> None" for h
    using assms(5) by (simp add: AList.update_conv' buildPrimaryKey_def)
  with assms show ?thesis
    by (simp add: updateResource_def Let_def GetCommand_healthy PutCommand_healthy
                  UpdateCommand_present addMetadata_version)
qed

lemma deleteResource_healthy:
  assumes "validateResourceType rt" and "i \<noteq> []"
    and "faults be = []" and "map_of (table be) (buildPrimaryKey rt i) = Some cur"
  shows "deleteResource be rt i now =
           (Inr (), be\<lparr>table := AList.update (buildPrimaryKey rt i) (deletedItem cur now) (table be)\<rparr>)"
  using assms
  by (simp add: deleteResource_def GetCommand_healthy PutCommand_healthy)


lemma getResource_healthy:
  assumes "validateResourceType rt" and "i \<noteq> []" and "faults be = []"
  shows "getResource be rt i =
           (case map_of (table be) (buildPrimaryKey rt i) of
              None \<Rightarrow> (Inl (NotFound rt i), be)
            | Some it \<Rightarrow> (Inr (resource it), be))"
  using assms
  by (simp add: getResource_def GetCommand_healthy split: option.splits)

subsection \<open>Create and update\<close>

text \<open>
  C5. A second \<open>create\<close> of a stored identity fails with \<open>AlreadyExists\<close> and leaves
  the backend, and so the stored version-1 row, as it was.
\<close>

theorem create_twice_AlreadyExists:
  assumes "validateResourceType rt" and "\<not> type_mismatch r rt"
    and "id_attr r = Some i" and "i \<noteq> []"
    and "map_of (table be) (buildPrimaryKey rt i) = Some row"
    and "faults be = []"
  shows "createResource be rt (Some r) now uuid = (Inl (AlreadyExists rt i), be) \<and>
         map_of (table (snd (createResource be rt (Some r) now uuid))) (buildPrimaryKey rt i) = Some row"
  using assms
  by (simp add: createResource_def Let_def PutCommand_healthy)

theorem create_twice_AlreadyExists_witness:
  "validateResourceType ''Patient'' \<and> \<not> type_mismatch patientA ''Patient'' \<and>
   id_attr patientA = Some ''p1'' \<and> faults created = [] \<and>
   map_of (table created) (buildPrimaryKey ''Patient'' ''p1'') \<noteq> None \<and>
   createResource created ''Patient'' (Some patientA) ''2024-05-01T10:00:03Z'' ''u2'' =
     (Inl (AlreadyExists ''Patient'' ''p1''), created)"
proof -
  have v: "validateResourceType ''Patient''" by code_simp
  have m: "\<not> type_mismatch patientA ''Patient''" by code_simp
  have i: "id_attr patientA = Some ''p1''" by code_simp
  have f: "faults created = []" by code_simp
  have e: "map_of (table created) (buildPrimaryKey ''Patient'' ''p1'') \<noteq> None" by code_simp
  then obtain row where r: "map_of (table created) (buildPrimaryKey ''Patient'' ''p1'') = Some row"
    by blast
  have n: "''p1'' \<noteq> []" by simp
  from create_twice_AlreadyExists [OF v m i n r f] v m i f e show ?thesis by blast
qed

text \<open>
  C9. \<open>update\<close> returns a resource with the id and the kind of its arguments whatever
  the payload carries, it accepts a payload with another id, and \<open>create\<close> stores and
  returns a resource of the kind of its argument.
\<close>

theorem update_overrides_identity:
  "(updateResource be rt i (Some r) now = (Inr r', be') \<longrightarrow>
      id_attr r' = Some i \<and> resourceType r' = Some rt) \<and>
   (validateResourceType rt \<and> i \<noteq> [] \<and> \<not> type_mismatch r rt \<and> faults be = [] \<and>
    map_of (table be) (buildPrimaryKey rt i) \<noteq> None \<longrightarrow>
      (\<exists>r2 be2. updateResource be rt i (Some r) now = (Inr r2, be2))) \<and>
   (createResource be rt (Some r) now uuid = (Inr r', be') \<longrightarrow>
      resourceType r' = Some rt \<and>
      (\<exists>rid row. map_of (table be') (buildPrimaryKey rt rid) = Some row \<and>
                 resource row = r' \<and> resourceType (resource row) = Some rt))"
proof (intro conjI impI)
  assume u: "updateResource be rt i (Some r) now = (Inr r', be')"
  from updateResource_effect [OF u]
  have "\<exists>v. r' = addMetadata (r\<lparr>resourceType := Some rt, id_attr := Some i\<rparr>) True (Some v) now"
    by (auto simp: Let_def)
  then show "id_attr r' = Some i" "resourceType r' = Some rt"
    by (auto simp: addMetadata_keeps)
next
  assume "validateResourceType rt \<and> i \<noteq> [] \<and> \<not> type_mismatch r rt \<and> faults be = [] \<and>
          map_of (table be) (buildPrimaryKey rt i) \<noteq> None"
  then show "\<exists>r2 be2. updateResource be rt i (Some r) now = (Inr r2, be2)"
    using updateResource_healthy [of rt i r be _ now] by blast
next
  assume c: "createResource be rt (Some r) now uuid = (Inr r', be')"
  from createResource_effect [OF c]
  obtain rid where rid: "r' = addMetadata (r\<lparr>resourceType := Some rt, id_attr := Some rid\<rparr>) False None now"
    "table be' = AList.update (buildPrimaryKey rt rid) (dynamoItem ''CREATED#'' rt rid r r') (table be)"
    by auto
  from rid(1) show rt: "resourceType r' = Some rt" by (simp add: addMetadata_keeps)
  from rid(2) have "map_of (table be') (buildPrimaryKey rt rid) = Some (dynamoItem ''CREATED#'' rt rid r r')"
    by (simp add: AList.update_conv')
  with rt show "\<exists>rid row. map_of (table be') (buildPrimaryKey rt rid) = Some row \<and>
                 resource row = r' \<and> resourceType (resource row) = Some rt"
    by (intro exI [of _ rid] exI [of _ "dynamoItem ''CREATED#'' rt rid r r'"])
       (simp add: dynamoItem_sel)
qed

lemma result_Inr: "\<not> isl (fst p) \<Longrightarrow> p = (Inr (projr (fst p)), snd p)"
  by (cases p; cases "fst p") auto

theorem update_overrides_identity_witness:
  "id_attr patientB = Some ''other'' \<and>
   (\<exists>r' be'. updateResource created ''Patient'' ''p1'' (Some patientB) ''2024-05-01T10:00:05Z'' = (Inr r', be') \<and>
       id_attr r' = Some ''p1'' \<and> resourceType r' = Some ''Patient'') \<and>
   (\<exists>r' be'. createResource empty_backend ''Patient'' (Some patientA) ''2024-05-01T10:00:00Z'' ''u1'' = (Inr r', be') \<and>
       resourceType r' = Some ''Patient'')"
proof -
  let ?u = "updateResource created ''Patient'' ''p1'' (Some patientB) ''2024-05-01T10:00:05Z''"
  let ?c = "createResource empty_backend ''Patient'' (Some patientA) ''2024-05-01T10:00:00Z'' ''u1''"
  have b: "id_attr patientB = Some ''other''" by code_simp
  have "\<not> isl (fst ?u)" by code_simp
  then have u: "?u = (Inr (projr (fst ?u)), snd ?u)" by (rule result_Inr)
  have "\<not> isl (fst ?c)" by code_simp
  then have c: "?c = (Inr (projr (fst ?c)), snd ?c)" by (rule result_Inr)
  from update_overrides_identity [of created "''Patient''" "''p1''" patientB "''2024-05-01T10:00:05Z''"
         "projr (fst ?u)" "snd ?u"] u
  have 1: "id_attr (projr (fst ?u)) = Some ''p1'' \<and> resourceType (projr (fst ?u)) = Some ''Patient''"
    by blast
  from update_overrides_identity [of empty_backend "''Patient''" _ patientA "''2024-05-01T10:00:00Z''"
         "projr (fst ?c)" "snd ?c" "''u1''"] c
  have 2: "resourceType (projr (fst ?c)) = Some ''Patient''"
    by blast
  from b u c 1 2 show ?thesis by metis
qed

subsection \<open>Versions\<close>



subsection \<open>Reading\<close>

lemma consistent_current:
  assumes "consistent t" and "map_of t (pk, k) = Some it"
  shows "1 \<le> k \<and> (\<exists>cur. map_of t (pk, 1) = Some cur \<and> 1 \<le> itemVersionId cur \<and> k \<le> itemVersionId cur)"
proof -
  from assms(2) have "((pk, k), it) \<in> set t" by (rule map_of_SomeD)
  with assms(1) show ?thesis
    by (fastforce simp: consistent_def split: option.splits)
qed



text \<open>
  C8. With a valid kind and a non-empty id: when the backend answers, \<open>read\<close> fails with
  \<open>NotFound\<close> exactly when the identity has no current row (on a consistent table: no row
  at all) and fails in no other way; when the backend call fails, \<open>read\<close> fails with the
  retrieval error, which is not \<open>NotFound\<close> and carries no 404 status.
\<close>

theorem read_NotFound_iff_absent:
  assumes "validateResourceType rt" and "i \<noteq> []"
  shows "(fst (next_fault be) = None \<longrightarrow>
            ((fst (getResource be rt i) = Inl (NotFound rt i)) =
               (map_of (table be) (buildPrimaryKey rt i) = None)) \<and>
            (\<forall>e. fst (getResource be rt i) = Inl e \<longrightarrow> e = NotFound rt i) \<and>
            (consistent (table be) \<longrightarrow>
               (map_of (table be) (buildPrimaryKey rt i) = None) =
               (\<forall>k. map_of (table be) (fst (buildPrimaryKey rt i), k) = None))) \<and>
         (\<forall>e. fst (next_fault be) = Some e \<longrightarrow>
            fst (getResource be rt i) = Inl (FailedToRetrieve (err_message e)) \<and>
            (\<forall>a b. fst (getResource be rt i) \<noteq> Inl (NotFound a b)) \<and>
            statusCode (FailedToRetrieve (err_message e)) \<noteq> Some 404)"
proof (intro conjI impI allI)
  assume h: "fst (next_fault be) = None"
  then obtain be1 where n: "next_fault be = (None, be1)" by (cases "next_fault be") auto
  from next_fault_table [OF n] have t: "table be1 = table be" .
  from assms n t
  show "(fst (getResource be rt i) = Inl (NotFound rt i)) =
               (map_of (table be) (buildPrimaryKey rt i) = None)"
    by (auto simp: getResource_def GetCommand_def split: option.splits)
  fix e assume "fst (getResource be rt i) = Inl e"
  with assms n t show "e = NotFound rt i"
    by (auto simp: getResource_def GetCommand_def split: option.splits)
next
  assume c: "consistent (table be)"
  show "(map_of (table be) (buildPrimaryKey rt i) = None) =
               (\<forall>k. map_of (table be) (fst (buildPrimaryKey rt i), k) = None)"
  proof
    assume a: "map_of (table be) (buildPrimaryKey rt i) = None"
    show "\<forall>k. map_of (table be) (fst (buildPrimaryKey rt i), k) = None"
    proof (rule allI, rule ccontr)
      fix k assume "map_of (table be) (fst (buildPrimaryKey rt i), k) \<noteq> None"
      then obtain it where "map_of (table be) (fst (buildPrimaryKey rt i), k) = Some it" by blast
      from consistent_current [OF c this] a show False
        by (auto simp: buildPrimaryKey_def)
    qed
  next
    assume "\<forall>k. map_of (table be) (fst (buildPrimaryKey rt i), k) = None"
    then have "map_of (table be) (fst (buildPrimaryKey rt i), 1) = None" by blast
    then show "map_of (table be) (buildPrimaryKey rt i) = None"
      by (simp add: buildPrimaryKey_def)
  qed
next
  fix e assume h: "fst (next_fault be) = Some e"
  then obtain be1 where n: "next_fault be = (Some e, be1)" by (cases "next_fault be") auto
  with assms show g: "fst (getResource be rt i) = Inl (FailedToRetrieve (err_message e))"
    by (simp add: getResource_def GetCommand_def)
  show "statusCode (FailedToRetrieve (err_message e)) \<noteq> Some 404" by simp
  fix a b from g show "fst (getResource be rt i) \<noteq> Inl (NotFound a b)" by simp
qed


theorem read_NotFound_iff_absent_witness:
  "validateResourceType ''Patient'' \<and> fst (next_fault empty_backend) = None \<and>
   consistent (table empty_backend) \<and>
   fst (getResource empty_backend ''Patient'' ''p1'') = Inl (NotFound ''Patient'' ''p1'') \<and>
   (\<forall>k. map_of (table empty_backend) (fst (buildPrimaryKey ''Patient'' ''p1''), k) = None) \<and>
   map_of (table outage) (buildPrimaryKey ''Patient'' ''p1'') \<noteq> None \<and>
   fst (next_fault outage) = Some (BackendError ''ServiceUnavailable'' ''service unavailable'') \<and>
   fst (getResource outage ''Patient'' ''p1'') = Inl (FailedToRetrieve ''service unavailable'')"
proof -
  have v: "validateResourceType ''Patient''" by code_simp
  have p: "''p1'' \<noteq> []" by simp
  have h: "fst (next_fault empty_backend) = None" by code_simp
  have c: "consistent (table empty_backend)" by code_simp
  have a: "map_of (table empty_backend) (buildPrimaryKey ''Patient'' ''p1'') = None" by code_simp
  have o: "fst (next_fault outage) = Some (BackendError ''ServiceUnavailable'' ''service unavailable'')"
    by code_simp
  have s: "map_of (table outage) (buildPrimaryKey ''Patient'' ''p1'') \<noteq> None" by code_simp
  note t1 = read_NotFound_iff_absent [OF v p, of empty_backend, THEN conjunct1, THEN mp, OF h]
  from t1 a have 1: "fst (getResource empty_backend ''Patient'' ''p1'') = Inl (NotFound ''Patient'' ''p1'')"
    by blast
  from t1 a c have 2: "\<forall>k. map_of (table empty_backend) (fst (buildPrimaryKey ''Patient'' ''p1''), k) = None"
    by blast
  note t2 = read_NotFound_iff_absent [OF v p, of outage, THEN conjunct2, THEN spec, THEN mp, OF o]
  then have 3: "fst (getResource outage ''Patient'' ''p1'') = Inl (FailedToRetrieve ''service unavailable'')"
    by simp
  from v h c 1 2 s o 3 show ?thesis by (intro conjI)
qed

subsection \<open>Operations as table steps\<close>




subsection \<open>Table steps keep the table consistent\<close>

lemma write_effect_distinct:
  "write_effect t t' \<Longrightarrow> distinct (map fst t) \<Longrightarrow> distinct (map fst t')"
  by (induction rule: write_effect.induct) (auto intro: AList.distinct_update)




subsection \<open>Sequences of operations\<close>









subsection \<open>History and tombstones\<close>







subsection \<open>Search\<close>



lemma searchRequest_Limit:
  "Limit (searchRequest rt ps) =
     (case parseInt (ps ''_count'') of None \<Rightarrow> 20 | Some n \<Rightarrow> if n = 0 then 20 else n)"
  by (simp add: searchRequest_def Let_def)


lemma QueryCommand_items:
  assumes "QueryCommand be q = (Inr (items, n), be')"
  shows "set items \<subseteq> {it \<in> snd ` set (table be).
                          eval_condition (map_of (ExpressionAttributeValues q)) it (FilterExpression q)} \<and>
         int (length items) \<le> Limit q \<and> n = length items"
proof -
  obtain f be1 where nf: "next_fault be = (f, be1)" by (cases "next_fault be")
  from next_fault_table [OF nf] have t: "table be1 = table be" .
  let ?vals = "map_of (ExpressionAttributeValues q)"
  let ?matching = "filter (\<lambda>it. eval_condition ?vals it (KeyConditionExpression q))
                     (filter (\<lambda>it. index_keys (IndexName q) it \<noteq> None) (map snd (table be)))"
  let ?asc = "sort_key (sort_key_of (IndexName q)) ?matching"
  let ?page = "take (nat (Limit q)) (if ScanIndexForward q then ?asc else rev ?asc)"
  from assms nf t
  have 1: "items = filter (\<lambda>it. eval_condition ?vals it (FilterExpression q)) ?page"
    and 2: "n = length items" and 3: "\<not> Limit q < 1"
    by (auto simp: QueryCommand_def Let_def split: option.splits if_splits)
  have "set ?page \<subseteq> set (if ScanIndexForward q then ?asc else rev ?asc)"
    by (rule set_take_subset)
  also have "\<dots> = set ?matching" by simp
  also have "\<dots> \<subseteq> snd ` set (table be)" by auto
  finally have 4: "set ?page \<subseteq> snd ` set (table be)" .
  have "length items \<le> length ?page" unfolding 1 by (rule length_filter_le)
  also have "\<dots> \<le> nat (Limit q)" by simp
  finally have 5: "int (length items) \<le> Limit q" using 3 by simp
  from 1 2 4 5 show ?thesis by auto
qed




text \<open>
  C4 at a failing input. Patient \<open>a\<close> is created at 10:00:00 and updated at 10:00:05,
  patient \<open>b\<close> is created at 10:00:09. The search lists the update of \<open>a\<close> first, then
  \<open>b\<close>, which was modified later, then \<open>a\<close> again through its current row; with a limit
  of 2 it still lists \<open>a\<close> before \<open>b\<close>.
\<close>

theorem search_order_not_by_modification_time:
  "search_listing mixed ''Patient'' [] =
     [(Some ''a'', Some 2, Some ''2024-05-01T10:00:05Z''),
      (Some ''b'', Some 1, Some ''2024-05-01T10:00:09Z''),
      (Some ''a'', Some 2, Some ''2024-05-01T10:00:05Z'')] \<and>
   search_listing mixed ''Patient'' [(''_count'', ''2'')] =
     [(Some ''a'', Some 2, Some ''2024-05-01T10:00:05Z''),
      (Some ''b'', Some 1, Some ''2024-05-01T10:00:09Z'')] \<and>
   ''2024-05-01T10:00:05Z'' < ''2024-05-01T10:00:09Z''"
  by code_simp

text \<open>
  C7 at a failing input. The patient is created, updated and deleted. The delete
  succeeds, the current row is the tombstone at version 3 and a read returns it; a
  default search on the kind still lists the identity, through the row the update wrote
  for version 2.
\<close>

theorem deleted_identity_still_listed:
  "fst (deleteResource updated ''Patient'' ''p1'' ''2024-05-01T10:00:09Z'') = Inr () \<and>
   stored_rows tombstoned =
     [((''RESOURCE#Patient#p1'', 1), Some 3, Some True, [(''name'', ''B'')]),
      ((''RESOURCE#Patient#p1'', 2), Some 2, None, [(''name'', ''B'')])] \<and>
   map_sum id deleted_marker (fst (getResource tombstoned ''Patient'' ''p1'')) = Inr (Some True) \<and>
   search_listing tombstoned ''Patient'' [] = [(Some ''p1'', Some 2, Some ''2024-05-01T10:00:05Z'')]"
  by code_simp

subsection \<open>Owner buckets\<close>






subsection \<open>What holds of search limits and of delete\<close>

lemma search_within_limit:
  assumes "searchResources be rt ps uuid = (Inr b, be')"
  shows "int (length (entry b)) \<le>
           (case parseInt (ps ''_count'') of None \<Rightarrow> 20 | Some n \<Rightarrow> if n = 0 then 20 else n) \<and>
         total b = length (entry b)"
proof -
  from assms obtain items n where q: "QueryCommand be (searchRequest rt ps) = (Inr (items, n), be')"
    and b: "length (entry b) = length items" "total b = n"
    by (auto simp: searchResources_def split: if_splits prod.splits sum.splits)
  from QueryCommand_items [OF q] b show ?thesis
    by (simp add: searchRequest_Limit)
qed

lemma delete_leaves_tombstone:
  assumes "validateResourceType rt" and "i \<noteq> []" and "faults be = []"
    and "map_of (table be) (buildPrimaryKey rt i) = Some cur"
  shows "\<exists>be' cur'. deleteResource be rt i now = (Inr (), be') \<and>
           map_of (table be') (buildPrimaryKey rt i) = Some cur' \<and>
           deleted cur' = Some True \<and> itemVersionId cur' = itemVersionId cur + 1 \<and>
           deleted_marker (resource cur') = Some True \<and>
           versionId (the (meta (resource cur'))) = Some (itemVersionId cur + 1) \<and>
           getResource be' rt i = (Inr (resource cur'), be')"
proof -
  let ?be' = "be\<lparr>table := AList.update (buildPrimaryKey rt i) (deletedItem cur now) (table be)\<rparr>"
  have d: "deleteResource be rt i now = (Inr (), ?be')"
    by (rule deleteResource_healthy [OF assms])
  have m: "map_of (table ?be') (buildPrimaryKey rt i) = Some (deletedItem cur now)"
    by (simp add: AList.update_conv')
  have g: "getResource ?be' rt i = (Inr (resource (deletedItem cur now)), ?be')"
    using assms(1-3) m by (simp add: getResource_healthy)
  show ?thesis
    by (intro exI [of _ ?be'] exI [of _ "deletedItem cur now"])
       (simp add: d m g deletedItem_sel deletedResource_sel AList.update_conv')
qed

end
